theory Spec2Isabelle
  imports Main
begin

section \<open>The token-classification evaluation script\<close>

text \<open>
  A shallow embedding of \<^verbatim>\<open>main\<close> of
  \<^verbatim>\<open>examples/nlp/token_classification/scripts/token_classification_evaluate.py\<close>.
  The script is a linear sequence of configuration checks and calls into the framework
  (the trainer, the experiment manager and the token-classification model class). The
  model of \<^verbatim>\<open>main\<close> takes the configuration and an environment, which holds what the
  framework and the file system answer, and returns the list of framework calls made, in
  order, together with the outcome: \<open>Inl\<close> of the exception raised, or \<open>Inr ()\<close>.
\<close>

subsection \<open>Configuration values\<close>

text \<open>
  Scalar configuration values as Python sees them. \<^verbatim>\<open>cfg.trainer.gpus\<close> may be absent
  (\<^verbatim>\<open>None\<close>), a number, a string such as \<^verbatim>\<open>"0,1"\<close> or a list of device ids.
\<close>

datatype pyval = PyNone | PyBool bool | PyInt int | PyStr string | PyList "pyval list"

text \<open>
  \<^verbatim>\<open>v != 0\<close> in Python: only a number equal to zero compares equal to \<^verbatim>\<open>0\<close>, and
  \<^verbatim>\<open>False == 0\<close>, \<^verbatim>\<open>True == 1\<close>.
\<close>

fun py_ne_zero :: "pyval \<Rightarrow> bool" where
  "py_ne_zero PyNone = True"
| "py_ne_zero (PyBool b) = b"
| "py_ne_zero (PyInt n) = (n \<noteq> 0)"
| "py_ne_zero (PyStr s) = True"
| "py_ne_zero (PyList vs) = True"

text \<open>
  A configuration string that may be \<^verbatim>\<open>None\<close> (or absent). \<^verbatim>\<open>not v\<close> holds for
  \<^verbatim>\<open>None\<close> and for the empty string.
\<close>

fun py_not :: "string option \<Rightarrow> bool" where
  "py_not None = True"
| "py_not (Some s) = (s = [])"

fun str_value :: "string option \<Rightarrow> string" where
  "str_value None = []"
| "str_value (Some s) = s"

record test_ds_config =
  text_file :: string
  labels_file :: string

record dataset_config =
  data_dir :: "string option"

text \<open>
  \<open>test_ds = None\<close> stands for \<^verbatim>\<open>hasattr(cfg.model, 'test_ds')\<close> being false.
\<close>

record model_config =
  test_ds :: "test_ds_config option"
  dataset :: dataset_config

record trainer_config =
  gpus :: pyval
  precision :: pyval
  amp_level :: pyval

type_synonym exp_manager_config = "(string \<times> pyval) list"

record config =
  cfg_model :: model_config
  cfg_trainer :: trainer_config
  cfg_exp_manager :: exp_manager_config
  cfg_pretrained_model :: "string option"

subsection \<open>Framework objects\<close>

text \<open>The keyword arguments of \<^verbatim>\<open>pl.Trainer(...)\<close>, lines 64 to 70.\<close>

record pl_trainer =
  trainer_gpus :: int
  trainer_precision :: pyval
  trainer_amp_level :: pyval
  trainer_logger :: bool
  trainer_checkpoint_callback :: bool

text \<open>
  A loaded \<^verbatim>\<open>TokenClassificationModel\<close>: the two entries of \<^verbatim>\<open>model._cfg.dataset\<close>
  that the script writes, and a name for everything else a checkpoint holds.
\<close>

record tc_model =
  weights :: string
  model_data_dir :: "string option"
  model_use_cache :: bool

text \<open>
  Modelled from the spec: \<^verbatim>\<open>TokenClassificationModel.update_data_dir\<close> is not part of the
  source file. It stores its argument as the data directory of the model's dataset
  configuration and changes nothing else.
\<close>

definition update_data_dir :: "tc_model \<Rightarrow> string \<Rightarrow> tc_model" where
  "update_data_dir m d = m\<lparr>model_data_dir := Some d\<rparr>"

text \<open>
  What the framework and the file system answer. \<open>list_available_models\<close> is the text
  that the f-string of line 85 renders for \<^verbatim>\<open>TokenClassificationModel.list_available_models()\<close>.
  The file system is the same at both calls of \<^verbatim>\<open>os.path.exists\<close>.
\<close>

record env =
  os_path_exists :: "string \<Rightarrow> bool"
  get_available_model_names :: "string list"
  list_available_models :: string
  exp_manager :: "pl_trainer \<Rightarrow> exp_manager_config \<Rightarrow> string"
  restore_from :: "string \<Rightarrow> tc_model"
  from_pretrained :: "string \<Rightarrow> tc_model"
  prepare_test :: "tc_model \<Rightarrow> pl_trainer \<Rightarrow> bool"
  add_predictions :: "tc_model \<Rightarrow> string list \<Rightarrow> string \<Rightarrow> string list"

subsection \<open>Calls and errors\<close>

text \<open>
  One event per framework call, with its arguments. \<open>ExpManager\<close> and \<open>PrepareTest\<close> also
  record what the call returned; \<open>TrainerTest\<close>, \<open>EvaluateFromFile\<close> and \<open>AddPredictions\<close>
  record the model as it is when the call is made. \<open>SetUseCache\<close> is the assignment of
  line 99.
\<close>

datatype event =
    LogInfo string
  | TrainerInit pl_trainer
  | ExpManager pl_trainer exp_manager_config string
  | RestoreFrom string
  | FromPretrained string
  | UpdateDataDir string
  | SetUseCache bool
  | PrepareTest bool
  | SetupTestData
  | TrainerTest tc_model
  | EvaluateFromFile tc_model string string string bool bool
  | AddPredictions tc_model "string list" string

text \<open>
  Every exception the script raises is a \<^verbatim>\<open>ValueError\<close>. It is recorded with the source
  line of its \<^verbatim>\<open>raise\<close> statement and its message; the line tells the two raises with
  the same message (lines 60 and 102) apart.
\<close>

datatype error = ValueError nat string

text \<open>Projections of the list of calls.\<close>

fun trainer_args :: "event \<Rightarrow> pl_trainer list" where
  "trainer_args (TrainerInit t) = [t]"
| "trainer_args ev = []"

fun is_model_load :: "event \<Rightarrow> bool" where
  "is_model_load (RestoreFrom p) = True"
| "is_model_load (FromPretrained n) = True"
| "is_model_load ev = False"

fun is_evaluation :: "event \<Rightarrow> bool" where
  "is_evaluation (TrainerTest m) = True"
| "is_evaluation (EvaluateFromFile m t l d c n) = True"
| "is_evaluation ev = False"

fun is_evaluate_from_file :: "event \<Rightarrow> bool" where
  "is_evaluate_from_file (EvaluateFromFile m t l d c n) = True"
| "is_evaluate_from_file ev = False"

fun is_inference :: "event \<Rightarrow> bool" where
  "is_inference (AddPredictions m qs f) = True"
| "is_inference ev = False"

fun is_log :: "event \<Rightarrow> bool" where
  "is_log (LogInfo s) = True"
| "is_log ev = False"

subsection \<open>Library functions\<close>

text \<open>\<^verbatim>\<open>os.path.join(a, b)\<close> of the POSIX path module, for two components.\<close>

definition os_path_join :: "string \<Rightarrow> string \<Rightarrow> string" where
  "os_path_join a b =
     (if take 1 b = ''/'' then b
      else if a = [] \<or> last a = CHR ''/'' then a @ b
      else a @ ''/'' @ b)"

text \<open>
  \<^verbatim>\<open>str.strip()\<close> on a string of ASCII characters: the white space of Python is tab, line
  feed, vertical tab, form feed, carriage return, the four separators 0x1C to 0x1F and
  the space.
\<close>

definition is_space :: "char \<Rightarrow> bool" where
  "is_space c =
     (c \<in> set [CHR 0x09, CHR 0x0A, CHR 0x0B, CHR 0x0C, CHR 0x0D,
               CHR 0x1C, CHR 0x1D, CHR 0x1E, CHR 0x1F, CHR 0x20])"

definition strip :: "string \<Rightarrow> string" where
  "strip s = rev (dropWhile is_space (rev (dropWhile is_space s)))"

subsection \<open>Messages\<close>

definition advisory_message :: string where
  "advisory_message =
     ''During evaluation/testing, it is currently advisable to construct a new Trainer with single GPU and ''
     @ ''            no DDP to obtain accurate results''"

definition test_ds_missing_message :: string where
  "test_ds_missing_message = ''model.test_ds was not found in the config, skipping evaluation''"

definition pretrained_model_missing_message :: string where
  "pretrained_model_missing_message =
     ''To run evaluation and inference script a pre-trained model or .nemo file must be provided.''
     @ ''For example: \"pretrained_model\"=\"NERModel\" or \"pretrained_model\"=\"my_ner_model.nemo\"''"

definition unknown_model_message :: "string \<Rightarrow> string" where
  "unknown_model_message available =
     ''Provide path to the pre-trained checkpoint or choose from '' @ available"

definition data_dir_missing_message :: string where
  "data_dir_missing_message =
     ''Specify a valid dataset directory that contains test_ds.text_file and test_ds.labels_file ''
     @ ''            with \"model.dataset.data_dir\" argument''"

definition data_dir_not_found_message :: "string \<Rightarrow> string" where
  "data_dir_not_found_message d = d @ '' is not found at''"

definition terminating_message :: string where
  "terminating_message = ''Terminating evaluation''"

definition queries :: "string list" where
  "queries =
     [''we bought four shirts from the nvidia gear store in santa clara.'',
      ''Nvidia is a company.'']"

subsection \<open>The script\<close>

text \<open>
  The loop of lines 122 to 124, over the pairs of \<^verbatim>\<open>zip(queries, results)\<close>: two log
  lines for each pair.
\<close>

fun log_results :: "(string \<times> string) list \<Rightarrow> event list" where
  "log_results [] = []"
| "log_results ((query, result) # rest) =
     LogInfo (''Query : '' @ query)
     # LogInfo (''Result: '' @ strip result @ [CHR 0x0A])
     # log_results rest"

text \<open>
  \<^verbatim>\<open>main(cfg)\<close>, lines 53 to 126, top to bottom. The model leaves the configuration as
  it is throughout, and the calls \<^verbatim>\<open>prepare_test\<close>, \<^verbatim>\<open>setup_test_data\<close> and
  \<^verbatim>\<open>trainer.test\<close> leave the model's dataset configuration as the script set it.
\<close>

definition main :: "env \<Rightarrow> config \<Rightarrow> event list \<times> (error + unit)" where
  "main e cfg =
    (let log0 = [LogInfo advisory_message] in
     case test_ds (cfg_model cfg) of
       None \<Rightarrow> (log0, Inl (ValueError 60 test_ds_missing_message))
     | Some ds0 \<Rightarrow>
        let gpu = (if py_ne_zero (gpus (cfg_trainer cfg)) then 1 else 0);
            trainer = \<lparr>trainer_gpus = gpu,
                       trainer_precision = precision (cfg_trainer cfg),
                       trainer_amp_level = amp_level (cfg_trainer cfg),
                       trainer_logger = False,
                       trainer_checkpoint_callback = False\<rparr>;
            exp_dir = exp_manager e trainer (cfg_exp_manager cfg);
            log1 = log0 @ [TrainerInit trainer, ExpManager trainer (cfg_exp_manager cfg) exp_dir]
        in
        if py_not (cfg_pretrained_model cfg)
        then (log1, Inl (ValueError 74 pretrained_model_missing_message))
        else
          let pretrained = str_value (cfg_pretrained_model cfg);
              loaded =
                (if os_path_exists e pretrained
                 then Inr (restore_from e pretrained, RestoreFrom pretrained)
                 else if pretrained \<in> set (get_available_model_names e)
                 then Inr (from_pretrained e pretrained, FromPretrained pretrained)
                 else Inl (ValueError 84 (unknown_model_message (list_available_models e))))
          in
          case loaded of
            Inl err \<Rightarrow> (log1, Inl err)
          | Inr (model0, load_event) \<Rightarrow>
             let log2 = log1 @ [load_event];
                 dir = data_dir (dataset (cfg_model cfg))
             in
             if py_not dir
             then (log2, Inl (ValueError 90 data_dir_missing_message))
             else if \<not> os_path_exists e (str_value dir)
             then (log2, Inl (ValueError 96 (data_dir_not_found_message (str_value dir))))
             else
               let d = str_value dir;
                   model1 = update_data_dir model0 d;
                   model = model1\<lparr>model_use_cache := False\<rparr>;
                   log3 = log2 @ [UpdateDataDir d, SetUseCache False]
               in
               case test_ds (cfg_model cfg) of
                 None \<Rightarrow> (log3, Inl (ValueError 102 test_ds_missing_message))
               | Some ds \<Rightarrow>
                  if prepare_test e model trainer
                  then
                    let results = add_predictions e model queries ''predictions.txt'';
                        log4 = log3 @
                          [PrepareTest True, SetupTestData, TrainerTest model,
                           EvaluateFromFile model
                             (os_path_join d (text_file ds))
                             (os_path_join d (labels_file ds))
                             exp_dir True True,
                           AddPredictions model queries ''predictions.txt''];
                        log5 = log4 @ log_results (zip queries results)
                    in (log5 @ [LogInfo (''Results are saved at '' @ exp_dir)], Inr ())
                  else (log3 @ [PrepareTest False], Inl (ValueError 108 terminating_message)))"

subsection \<open>Sample inputs\<close>

text \<open>
  A file system that holds \<^verbatim>\<open>model.nemo\<close> and \<^verbatim>\<open>/data\<close>, and a model class for which
  \<^verbatim>\<open>model.nemo\<close> is also one of the available model names. The checkpoint restored
  from a path has a data directory and a cache setting of its own. The configuration asks
  for four GPUs.
\<close>

definition sample_env :: env where
  "sample_env =
     \<lparr>os_path_exists = (\<lambda>p. p = ''model.nemo'' \<or> p = ''/data''),
      get_available_model_names = [''NERModel'', ''model.nemo''],
      list_available_models = ''[NERModel]'',
      exp_manager = (\<lambda>t c. ''/exp''),
      restore_from = (\<lambda>p. \<lparr>weights = p, model_data_dir = Some ''/train'', model_use_cache = True\<rparr>),
      from_pretrained = (\<lambda>n. \<lparr>weights = n, model_data_dir = None, model_use_cache = True\<rparr>),
      prepare_test = (\<lambda>m t. True),
      add_predictions = (\<lambda>m qs f. map (\<lambda>q. q @ '' '') qs)\<rparr>"

definition sample_cfg :: config where
  "sample_cfg =
     \<lparr>cfg_model = \<lparr>test_ds = Some \<lparr>text_file = ''text_dev.txt'', labels_file = ''labels_dev.txt''\<rparr>,
                   dataset = \<lparr>data_dir = Some ''/data''\<rparr>\<rparr>,
      cfg_trainer = \<lparr>gpus = PyInt 4, precision = PyInt 16, amp_level = PyStr ''O1''\<rparr>,
      cfg_exp_manager = [],
      cfg_pretrained_model = Some ''model.nemo''\<rparr>"

text \<open>The same configuration without the \<^verbatim>\<open>model.test_ds\<close> section.\<close>

definition without_test_ds :: "config \<Rightarrow> config" where
  "without_test_ds cfg = cfg\<lparr>cfg_model := (cfg_model cfg)\<lparr>test_ds := None\<rparr>\<rparr>"

text \<open>Configurations with no model reference, and with one that names nothing.\<close>

definition cfg_no_pretrained :: config where
  "cfg_no_pretrained = sample_cfg\<lparr>cfg_pretrained_model := None\<rparr>"

definition cfg_unknown_model :: config where
  "cfg_unknown_model = sample_cfg\<lparr>cfg_pretrained_model := Some ''unknown.nemo''\<rparr>"

text \<open>Configurations whose data directory does not exist, and with none.\<close>

definition cfg_missing_data_dir :: config where
  "cfg_missing_data_dir =
     sample_cfg\<lparr>cfg_model := (cfg_model sample_cfg)\<lparr>dataset := \<lparr>data_dir = Some ''/missing''\<rparr>\<rparr>\<rparr>"

definition cfg_no_data_dir :: config where
  "cfg_no_data_dir =
     sample_cfg\<lparr>cfg_model := (cfg_model sample_cfg)\<lparr>dataset := \<lparr>data_dir = None\<rparr>\<rparr>\<rparr>"

text \<open>An environment in which \<^verbatim>\<open>model.prepare_test(trainer)\<close> returns \<^verbatim>\<open>False\<close>.\<close>

definition refusing_env :: env where
  "refusing_env = sample_env\<lparr>prepare_test := (\<lambda>m t. False)\<rparr>"

section \<open>The paths through the script\<close>

lemmas main_defs = main_def Let_def update_data_dir_def

lemmas sample_defs =
  sample_env_def sample_cfg_def without_test_ds_def cfg_no_pretrained_def
  cfg_unknown_model_def cfg_missing_data_dir_def cfg_no_data_dir_def refusing_env_def
  queries_def

lemma filter_log_results [simp]:
  "(\<And>s. \<not> P (LogInfo s)) \<Longrightarrow> filter P (log_results qrs) = []"
  by (induction qrs rule: log_results.induct) simp_all

lemma log_results_is_log: "ev \<in> set (log_results qrs) \<Longrightarrow> is_log ev"
  by (induction qrs rule: log_results.induct) auto

lemma concat_trainer_args_log_results [simp]:
  "concat (map trainer_args (log_results qrs)) = []"
  by (induction qrs rule: log_results.induct) simp_all

lemma py_not_str_value: "\<not> py_not v \<Longrightarrow> Some (str_value v) = v"
  by (cases v) simp_all

text \<open>
  Every run of \<^verbatim>\<open>main\<close> takes one of seven paths: one for each of the six \<^verbatim>\<open>raise\<close>
  statements that can be reached, and the run to the end.
\<close>

lemma main_cases [case_names no_test_ds no_pretrained unknown_model no_data_dir
    data_dir_not_found refused evaluated]:
  obtains
    (no_test_ds)
      "test_ds (cfg_model cfg) = None"
      "main e cfg = ([LogInfo advisory_message], Inl (ValueError 60 test_ds_missing_message))"
  | (no_pretrained) tr xd where
      "test_ds (cfg_model cfg) \<noteq> None"
      "py_not (cfg_pretrained_model cfg)"
      "main e cfg =
         ([LogInfo advisory_message, TrainerInit tr, ExpManager tr (cfg_exp_manager cfg) xd],
          Inl (ValueError 74 pretrained_model_missing_message))"
  | (unknown_model) tr xd where
      "test_ds (cfg_model cfg) \<noteq> None"
      "\<not> py_not (cfg_pretrained_model cfg)"
      "\<not> os_path_exists e (str_value (cfg_pretrained_model cfg))"
      "str_value (cfg_pretrained_model cfg) \<notin> set (get_available_model_names e)"
      "main e cfg =
         ([LogInfo advisory_message, TrainerInit tr, ExpManager tr (cfg_exp_manager cfg) xd],
          Inl (ValueError 84 (unknown_model_message (list_available_models e))))"
  | (no_data_dir) tr xd ev where
      "test_ds (cfg_model cfg) \<noteq> None"
      "ev = RestoreFrom (str_value (cfg_pretrained_model cfg))
       \<or> ev = FromPretrained (str_value (cfg_pretrained_model cfg))"
      "py_not (data_dir (dataset (cfg_model cfg)))"
      "main e cfg =
         ([LogInfo advisory_message, TrainerInit tr, ExpManager tr (cfg_exp_manager cfg) xd, ev],
          Inl (ValueError 90 data_dir_missing_message))"
  | (data_dir_not_found) tr xd ev where
      "test_ds (cfg_model cfg) \<noteq> None"
      "ev = RestoreFrom (str_value (cfg_pretrained_model cfg))
       \<or> ev = FromPretrained (str_value (cfg_pretrained_model cfg))"
      "\<not> py_not (data_dir (dataset (cfg_model cfg)))"
      "\<not> os_path_exists e (str_value (data_dir (dataset (cfg_model cfg))))"
      "main e cfg =
         ([LogInfo advisory_message, TrainerInit tr, ExpManager tr (cfg_exp_manager cfg) xd, ev],
          Inl (ValueError 96
                (data_dir_not_found_message (str_value (data_dir (dataset (cfg_model cfg)))))))"
  | (refused) tr xd ev where
      "test_ds (cfg_model cfg) \<noteq> None"
      "ev = RestoreFrom (str_value (cfg_pretrained_model cfg))
       \<or> ev = FromPretrained (str_value (cfg_pretrained_model cfg))"
      "\<not> py_not (data_dir (dataset (cfg_model cfg)))"
      "os_path_exists e (str_value (data_dir (dataset (cfg_model cfg))))"
      "main e cfg =
         ([LogInfo advisory_message, TrainerInit tr, ExpManager tr (cfg_exp_manager cfg) xd, ev,
           UpdateDataDir (str_value (data_dir (dataset (cfg_model cfg)))), SetUseCache False,
           PrepareTest False],
          Inl (ValueError 108 terminating_message))"
  | (evaluated) tr xd ev m ds rs where
      "test_ds (cfg_model cfg) = Some ds"
      "\<not> py_not (cfg_pretrained_model cfg)"
      "os_path_exists e (str_value (cfg_pretrained_model cfg))
       \<or> str_value (cfg_pretrained_model cfg) \<in> set (get_available_model_names e)"
      "ev = RestoreFrom (str_value (cfg_pretrained_model cfg))
       \<or> ev = FromPretrained (str_value (cfg_pretrained_model cfg))"
      "\<not> py_not (data_dir (dataset (cfg_model cfg)))"
      "os_path_exists e (str_value (data_dir (dataset (cfg_model cfg))))"
      "\<not> model_use_cache m"
      "model_data_dir m = data_dir (dataset (cfg_model cfg))"
      "main e cfg =
         ([LogInfo advisory_message, TrainerInit tr, ExpManager tr (cfg_exp_manager cfg) xd, ev,
           UpdateDataDir (str_value (data_dir (dataset (cfg_model cfg)))), SetUseCache False,
           PrepareTest True, SetupTestData, TrainerTest m,
           EvaluateFromFile m
             (os_path_join (str_value (data_dir (dataset (cfg_model cfg)))) (text_file ds))
             (os_path_join (str_value (data_dir (dataset (cfg_model cfg)))) (labels_file ds))
             xd True True,
           AddPredictions m queries ''predictions.txt'']
          @ log_results (zip queries rs) @ [LogInfo (''Results are saved at '' @ xd)],
          Inr ())"
proof (cases "test_ds (cfg_model cfg)")
  case None
  then show ?thesis
    using no_test_ds by (simp add: main_defs)
next
  case (Some ds)
  let ?tr = "\<lparr>trainer_gpus = (if py_ne_zero (gpus (cfg_trainer cfg)) then 1 else 0),
              trainer_precision = precision (cfg_trainer cfg),
              trainer_amp_level = amp_level (cfg_trainer cfg),
              trainer_logger = False,
              trainer_checkpoint_callback = False\<rparr>"
  let ?xd = "exp_manager e ?tr (cfg_exp_manager cfg)"
  let ?pm = "str_value (cfg_pretrained_model cfg)"
  let ?dd = "data_dir (dataset (cfg_model cfg))"
  show ?thesis
  proof (cases "py_not (cfg_pretrained_model cfg)")
    case True
    with Some show ?thesis
      using no_pretrained [of ?tr ?xd] by (simp add: main_defs)
  next
    case pm: False
    show ?thesis
    proof (cases "os_path_exists e ?pm \<or> ?pm \<in> set (get_available_model_names e)")
      case False
      with Some pm show ?thesis
        using unknown_model [of ?tr ?xd] by (simp add: main_defs)
    next
      case known: True
      define m0 where
        "m0 = (if os_path_exists e ?pm then restore_from e ?pm else from_pretrained e ?pm)"
      define ev where
        "ev = (if os_path_exists e ?pm then RestoreFrom ?pm else FromPretrained ?pm)"
      have ev: "ev = RestoreFrom ?pm \<or> ev = FromPretrained ?pm"
        by (simp add: ev_def)
      show ?thesis
      proof (cases "py_not ?dd")
        case True
        with Some pm known ev show ?thesis
          using no_data_dir [of ev ?tr ?xd]
          by (cases "os_path_exists e ?pm") (simp_all add: main_defs ev_def)
      next
        case dd: False
        show ?thesis
        proof (cases "os_path_exists e (str_value ?dd)")
          case False
          with Some pm known ev dd show ?thesis
            using data_dir_not_found [of ev ?tr ?xd]
            by (cases "os_path_exists e ?pm") (simp_all add: main_defs ev_def)
        next
          case ex: True
          let ?m = "m0\<lparr>model_data_dir := Some (str_value ?dd), model_use_cache := False\<rparr>"
          show ?thesis
          proof (cases "prepare_test e ?m ?tr")
            case False
            with Some pm known ev dd ex show ?thesis
              using refused [of ev ?tr ?xd]
              by (cases "os_path_exists e ?pm") (simp_all add: main_defs ev_def m0_def)
          next
            case True
            with Some pm known ev dd ex show ?thesis
              using evaluated [of ds ev ?m ?tr ?xd "add_predictions e ?m queries ''predictions.txt''"]
              by (cases "os_path_exists e ?pm")
                 (simp_all add: main_defs ev_def m0_def py_not_str_value)
          qed
        qed
      qed
    qed
  qed
qed

section \<open>Properties\<close>

text \<open>
  C1, as stated: the number of GPUs handed to the trainer equals \<^verbatim>\<open>cfg.trainer.gpus\<close>.
  It fails for \<^verbatim>\<open>cfg.trainer.gpus = 4\<close>: the trainer is constructed once, with
  \<^verbatim>\<open>gpus=1\<close>.
\<close>

theorem gpus_not_passed_through_counterexample:
  "map trainer_gpus (concat (map trainer_args (fst (main sample_env sample_cfg)))) = [1]
   \<and> gpus (cfg_trainer sample_cfg) = PyInt 4"
  by (simp add: main_defs sample_defs)

text \<open>
  C1, amended: for every configuration that has \<^verbatim>\<open>model.test_ds\<close>, the trainer is
  constructed exactly once, with \<^verbatim>\<open>gpus = 1\<close> when \<^verbatim>\<open>cfg.trainer.gpus != 0\<close> and
  \<^verbatim>\<open>gpus = 0\<close> otherwise.
\<close>

theorem trainer_gets_single_gpu:
  assumes "test_ds (cfg_model cfg) \<noteq> None"
  shows "map trainer_gpus (concat (map trainer_args (fst (main e cfg))))
         = [if py_ne_zero (gpus (cfg_trainer cfg)) then 1 else 0]"
  using assms by (auto simp add: main_defs split: option.splits sum.splits)

theorem trainer_gets_single_gpu_witness:
  "test_ds (cfg_model sample_cfg) \<noteq> None
   \<and> map trainer_gpus (concat (map trainer_args (fst (main sample_env sample_cfg))))
       = [if py_ne_zero (gpus (cfg_trainer sample_cfg)) then 1 else 0]"
  using trainer_gets_single_gpu [of sample_cfg sample_env]
  by (simp add: sample_cfg_def)

text \<open>
  C2. When \<^verbatim>\<open>cfg.model\<close> has no \<^verbatim>\<open>test_ds\<close> attribute, \<^verbatim>\<open>main\<close> raises the error of
  line 60 and has called neither \<^verbatim>\<open>restore_from\<close> nor \<^verbatim>\<open>from_pretrained\<close>.
\<close>

theorem missing_test_ds_fails_before_load:
  assumes "test_ds (cfg_model cfg) = None"
  shows "snd (main e cfg) = Inl (ValueError 60 test_ds_missing_message)
         \<and> filter is_model_load (fst (main e cfg)) = []"
  using assms by (simp add: main_def)

theorem missing_test_ds_fails_before_load_witness:
  "test_ds (cfg_model (without_test_ds sample_cfg)) = None
   \<and> snd (main sample_env (without_test_ds sample_cfg))
       = Inl (ValueError 60 test_ds_missing_message)
   \<and> filter is_model_load (fst (main sample_env (without_test_ds sample_cfg))) = []"
  using missing_test_ds_fails_before_load [of "without_test_ds sample_cfg" sample_env]
  by (simp add: sample_defs)

text \<open>
  C3, as stated: whenever \<^verbatim>\<open>cfg.pretrained_model\<close> is empty or absent, the error raised
  carries the message that asks for a pre-trained model or .nemo file. It fails for a
  configuration that also lacks \<^verbatim>\<open>model.test_ds\<close>: the check of line 59 comes first,
  and the message is the one about \<^verbatim>\<open>model.test_ds\<close>.
\<close>

theorem missing_pretrained_model_counterexample:
  "py_not (cfg_pretrained_model (without_test_ds cfg_no_pretrained))
   \<and> snd (main sample_env (without_test_ds cfg_no_pretrained))
       = Inl (ValueError 60 test_ds_missing_message)
   \<and> test_ds_missing_message \<noteq> pretrained_model_missing_message"
  by (simp add: main_defs sample_defs test_ds_missing_message_def
        pretrained_model_missing_message_def)

text \<open>
  C3, amended: for every configuration in which \<^verbatim>\<open>cfg.model\<close> has a \<^verbatim>\<open>test_ds\<close>
  attribute and \<^verbatim>\<open>cfg.pretrained_model\<close> is empty or absent, \<^verbatim>\<open>main\<close> raises the error
  of line 74, whose message asks for a pre-trained model or .nemo file, and no model has
  been loaded.
\<close>

theorem missing_pretrained_model_fails:
  assumes "test_ds (cfg_model cfg) \<noteq> None"
    and "py_not (cfg_pretrained_model cfg)"
  shows "snd (main e cfg) = Inl (ValueError 74 pretrained_model_missing_message)
         \<and> filter is_model_load (fst (main e cfg)) = []"
  using assms by (auto simp add: main_defs split: option.splits sum.splits)

theorem missing_pretrained_model_fails_witness:
  "test_ds (cfg_model cfg_no_pretrained) \<noteq> None
   \<and> py_not (cfg_pretrained_model cfg_no_pretrained)
   \<and> snd (main sample_env cfg_no_pretrained)
       = Inl (ValueError 74 pretrained_model_missing_message)
   \<and> filter is_model_load (fst (main sample_env cfg_no_pretrained)) = []"
  using missing_pretrained_model_fails [of cfg_no_pretrained sample_env]
  by (simp add: sample_defs)

text \<open>
  C4, as stated: whenever \<^verbatim>\<open>cfg.pretrained_model\<close> is non-empty and names neither an
  existing path nor an available model, the error raised lists the available models. It
  fails for a configuration that also lacks \<^verbatim>\<open>model.test_ds\<close>: the error is the one of
  line 60, whose message does not list the models.
\<close>

theorem unknown_model_counterexample:
  "\<not> py_not (cfg_pretrained_model (without_test_ds cfg_unknown_model))
   \<and> \<not> os_path_exists sample_env
         (str_value (cfg_pretrained_model (without_test_ds cfg_unknown_model)))
   \<and> str_value (cfg_pretrained_model (without_test_ds cfg_unknown_model))
       \<notin> set (get_available_model_names sample_env)
   \<and> snd (main sample_env (without_test_ds cfg_unknown_model))
       = Inl (ValueError 60 test_ds_missing_message)
   \<and> test_ds_missing_message \<noteq> unknown_model_message (list_available_models sample_env)"
  by (simp add: main_defs sample_defs test_ds_missing_message_def unknown_model_message_def)

text \<open>
  C4, amended: for every configuration in which \<^verbatim>\<open>cfg.model\<close> has a \<^verbatim>\<open>test_ds\<close>
  attribute and \<^verbatim>\<open>cfg.pretrained_model\<close> is non-empty and is neither an existing path
  nor one of the available model names, \<^verbatim>\<open>main\<close> raises the error of line 84, whose
  message ends with the list of available models, and no model is loaded.
\<close>

theorem unknown_model_fails:
  assumes "test_ds (cfg_model cfg) \<noteq> None"
    and "\<not> py_not (cfg_pretrained_model cfg)"
    and "\<not> os_path_exists e (str_value (cfg_pretrained_model cfg))"
    and "str_value (cfg_pretrained_model cfg) \<notin> set (get_available_model_names e)"
  shows "snd (main e cfg)
           = Inl (ValueError 84
                   (''Provide path to the pre-trained checkpoint or choose from ''
                    @ list_available_models e))
         \<and> filter is_model_load (fst (main e cfg)) = []"
  using assms
  by (auto simp add: main_defs unknown_model_message_def split: option.splits sum.splits)

theorem unknown_model_fails_witness:
  "test_ds (cfg_model cfg_unknown_model) \<noteq> None
   \<and> \<not> py_not (cfg_pretrained_model cfg_unknown_model)
   \<and> \<not> os_path_exists sample_env (str_value (cfg_pretrained_model cfg_unknown_model))
   \<and> str_value (cfg_pretrained_model cfg_unknown_model)
       \<notin> set (get_available_model_names sample_env)
   \<and> snd (main sample_env cfg_unknown_model)
       = Inl (ValueError 84
               (''Provide path to the pre-trained checkpoint or choose from ''
                @ list_available_models sample_env))
   \<and> filter is_model_load (fst (main sample_env cfg_unknown_model)) = []"
  using unknown_model_fails [of cfg_unknown_model sample_env]
  by (simp add: sample_defs)

text \<open>
  C5. When \<^verbatim>\<open>model.dataset.data_dir\<close> is missing or empty, or names a path that does
  not exist, \<^verbatim>\<open>main\<close> ends with an error, and neither \<^verbatim>\<open>trainer.test\<close> nor
  \<^verbatim>\<open>evaluate_from_file\<close> has been called.
\<close>

theorem bad_data_dir_fails_before_evaluation:
  assumes "py_not (data_dir (dataset (cfg_model cfg)))
           \<or> \<not> os_path_exists e (str_value (data_dir (dataset (cfg_model cfg))))"
  shows "isl (snd (main e cfg)) \<and> filter is_evaluation (fst (main e cfg)) = []"
  using assms by (cases e cfg rule: main_cases) auto

theorem bad_data_dir_fails_before_evaluation_witness:
  "(py_not (data_dir (dataset (cfg_model cfg_missing_data_dir)))
    \<or> \<not> os_path_exists sample_env
          (str_value (data_dir (dataset (cfg_model cfg_missing_data_dir)))))
   \<and> isl (snd (main sample_env cfg_missing_data_dir))
   \<and> filter is_evaluation (fst (main sample_env cfg_missing_data_dir)) = []"
  using bad_data_dir_fails_before_evaluation [of cfg_missing_data_dir sample_env]
  by (simp add: sample_defs)

text \<open>
  C6, as stated: for every configuration with \<^verbatim>\<open>test_ds\<close> present, a resolvable
  \<^verbatim>\<open>pretrained_model\<close> and an existing \<^verbatim>\<open>data_dir\<close>, \<^verbatim>\<open>evaluate_from_file\<close> is invoked.
  It fails when \<^verbatim>\<open>model.prepare_test(trainer)\<close> returns \<^verbatim>\<open>False\<close>: the script raises at
  line 108 and \<^verbatim>\<open>evaluate_from_file\<close> is not called.
\<close>

theorem evaluate_from_file_counterexample:
  "test_ds (cfg_model sample_cfg) \<noteq> None
   \<and> \<not> py_not (cfg_pretrained_model sample_cfg)
   \<and> os_path_exists refusing_env (str_value (cfg_pretrained_model sample_cfg))
   \<and> \<not> py_not (data_dir (dataset (cfg_model sample_cfg)))
   \<and> os_path_exists refusing_env (str_value (data_dir (dataset (cfg_model sample_cfg))))
   \<and> filter is_evaluate_from_file (fst (main refusing_env sample_cfg)) = []
   \<and> snd (main refusing_env sample_cfg) = Inl (ValueError 108 terminating_message)"
  by (simp add: main_defs sample_defs)

text \<open>
  C6, amended: for every configuration with \<^verbatim>\<open>test_ds\<close> present, a
  \<^verbatim>\<open>pretrained_model\<close> that is an existing path or an available model name, and an
  existing \<^verbatim>\<open>data_dir\<close>, if \<^verbatim>\<open>model.prepare_test(trainer)\<close> returns a true value on the
  model and trainer the script built, then \<^verbatim>\<open>evaluate_from_file\<close> is invoked exactly
  once, with \<^verbatim>\<open>text_file\<close> and \<^verbatim>\<open>labels_file\<close> equal to \<^verbatim>\<open>data_dir\<close> joined with the
  configured file names, \<^verbatim>\<open>output_dir\<close> the directory that \<^verbatim>\<open>exp_manager\<close> returned, and
  both confusion-matrix flags set.
\<close>

theorem evaluate_from_file_arguments:
  assumes tr: "tr = \<lparr>trainer_gpus = (if py_ne_zero (gpus (cfg_trainer cfg)) then 1 else 0),
                     trainer_precision = precision (cfg_trainer cfg),
                     trainer_amp_level = amp_level (cfg_trainer cfg),
                     trainer_logger = False,
                     trainer_checkpoint_callback = False\<rparr>"
    and pm: "pm = str_value (cfg_pretrained_model cfg)"
    and dd: "dd = str_value (data_dir (dataset (cfg_model cfg)))"
    and m: "m = (if os_path_exists e pm then restore_from e pm else from_pretrained e pm)
                  \<lparr>model_data_dir := Some dd, model_use_cache := False\<rparr>"
    and ds: "test_ds (cfg_model cfg) = Some ds"
    and pretrained: "\<not> py_not (cfg_pretrained_model cfg)"
    and resolvable: "os_path_exists e pm \<or> pm \<in> set (get_available_model_names e)"
    and dir: "\<not> py_not (data_dir (dataset (cfg_model cfg)))"
    and dir_exists: "os_path_exists e dd"
    and prepared: "prepare_test e m tr"
  shows "filter is_evaluate_from_file (fst (main e cfg))
           = [EvaluateFromFile m
                (os_path_join dd (text_file ds))
                (os_path_join dd (labels_file ds))
                (exp_manager e tr (cfg_exp_manager cfg)) True True]
         \<and> ExpManager tr (cfg_exp_manager cfg) (exp_manager e tr (cfg_exp_manager cfg))
             \<in> set (fst (main e cfg))"
  using ds pretrained resolvable dir dir_exists prepared
  unfolding tr pm dd m
  by (cases "os_path_exists e (str_value (cfg_pretrained_model cfg))")
     (simp_all add: main_defs)

theorem evaluate_from_file_arguments_witness:
  "test_ds (cfg_model sample_cfg)
     = Some \<lparr>text_file = ''text_dev.txt'', labels_file = ''labels_dev.txt''\<rparr>
   \<and> \<not> py_not (cfg_pretrained_model sample_cfg)
   \<and> os_path_exists sample_env ''model.nemo''
   \<and> \<not> py_not (data_dir (dataset (cfg_model sample_cfg)))
   \<and> os_path_exists sample_env ''/data''
   \<and> prepare_test sample_env
         \<lparr>weights = ''model.nemo'', model_data_dir = Some ''/data'', model_use_cache = False\<rparr>
         \<lparr>trainer_gpus = 1, trainer_precision = PyInt 16, trainer_amp_level = PyStr ''O1'',
           trainer_logger = False, trainer_checkpoint_callback = False\<rparr>
   \<and> filter is_evaluate_from_file (fst (main sample_env sample_cfg))
       = [EvaluateFromFile
            \<lparr>weights = ''model.nemo'', model_data_dir = Some ''/data'', model_use_cache = False\<rparr>
            ''/data/text_dev.txt'' ''/data/labels_dev.txt'' ''/exp'' True True]"
  using evaluate_from_file_arguments
          [OF refl refl refl refl,
           where cfg = sample_cfg and e = sample_env
             and ds = "\<lparr>text_file = ''text_dev.txt'', labels_file = ''labels_dev.txt''\<rparr>"]
  by (simp add: sample_defs os_path_join_def)

text \<open>
  C7. In every run in which \<^verbatim>\<open>model.prepare_test(trainer)\<close> returns a false value,
  \<^verbatim>\<open>main\<close> raises \<^verbatim>\<open>ValueError('Terminating evaluation')\<close> at once: the refused call is
  the last call made, and \<^verbatim>\<open>trainer.test\<close>, \<^verbatim>\<open>evaluate_from_file\<close> and the inference
  queries are not performed. Every problem the script detects is fatal and immediate: for
  each of the six, the run ends with the error of that check, and the calls made are
  exactly those that precede the check in the script, with nothing after it. A run that
  ends with an error has made no evaluation or inference call and has made no call twice.
\<close>

theorem detected_problems_are_fatal:
  assumes tr: "tr = \<lparr>trainer_gpus = (if py_ne_zero (gpus (cfg_trainer cfg)) then 1 else 0),
                     trainer_precision = precision (cfg_trainer cfg),
                     trainer_amp_level = amp_level (cfg_trainer cfg),
                     trainer_logger = False,
                     trainer_checkpoint_callback = False\<rparr>"
    and started: "started = [LogInfo advisory_message, TrainerInit tr,
                         ExpManager tr (cfg_exp_manager cfg)
                           (exp_manager e tr (cfg_exp_manager cfg))]"
    and pm: "pm = str_value (cfg_pretrained_model cfg)"
    and load: "load = (if os_path_exists e pm then RestoreFrom pm else FromPretrained pm)"
    and dd: "dd = str_value (data_dir (dataset (cfg_model cfg)))"
    and m: "m = (if os_path_exists e pm then restore_from e pm else from_pretrained e pm)
                  \<lparr>model_data_dir := Some dd, model_use_cache := False\<rparr>"
  shows
    "(test_ds (cfg_model cfg) = None \<longrightarrow>
        main e cfg = ([LogInfo advisory_message], Inl (ValueError 60 test_ds_missing_message)))
     \<and> (test_ds (cfg_model cfg) \<noteq> None \<and> py_not (cfg_pretrained_model cfg) \<longrightarrow>
        main e cfg = (started, Inl (ValueError 74 pretrained_model_missing_message)))
     \<and> (test_ds (cfg_model cfg) \<noteq> None \<and> \<not> py_not (cfg_pretrained_model cfg)
         \<and> \<not> os_path_exists e pm \<and> pm \<notin> set (get_available_model_names e) \<longrightarrow>
        main e cfg
          = (started, Inl (ValueError 84 (unknown_model_message (list_available_models e)))))
     \<and> (test_ds (cfg_model cfg) \<noteq> None \<and> \<not> py_not (cfg_pretrained_model cfg)
         \<and> (os_path_exists e pm \<or> pm \<in> set (get_available_model_names e))
         \<and> py_not (data_dir (dataset (cfg_model cfg))) \<longrightarrow>
        main e cfg = (started @ [load], Inl (ValueError 90 data_dir_missing_message)))
     \<and> (test_ds (cfg_model cfg) \<noteq> None \<and> \<not> py_not (cfg_pretrained_model cfg)
         \<and> (os_path_exists e pm \<or> pm \<in> set (get_available_model_names e))
         \<and> \<not> py_not (data_dir (dataset (cfg_model cfg))) \<and> \<not> os_path_exists e dd \<longrightarrow>
        main e cfg = (started @ [load], Inl (ValueError 96 (dd @ '' is not found at''))))
     \<and> (test_ds (cfg_model cfg) \<noteq> None \<and> \<not> py_not (cfg_pretrained_model cfg)
         \<and> (os_path_exists e pm \<or> pm \<in> set (get_available_model_names e))
         \<and> \<not> py_not (data_dir (dataset (cfg_model cfg))) \<and> os_path_exists e dd
         \<and> \<not> prepare_test e m tr \<longrightarrow>
        main e cfg
          = (started @ [load, UpdateDataDir dd, SetUseCache False, PrepareTest False],
             Inl (ValueError 108 ''Terminating evaluation'')))
     \<and> (PrepareTest False \<in> set (fst (main e cfg)) \<longrightarrow>
          snd (main e cfg) = Inl (ValueError 108 ''Terminating evaluation'')
          \<and> last (fst (main e cfg)) = PrepareTest False)
     \<and> (test_ds (cfg_model cfg) = None
         \<or> py_not (cfg_pretrained_model cfg)
         \<or> (\<not> os_path_exists e (str_value (cfg_pretrained_model cfg))
             \<and> str_value (cfg_pretrained_model cfg) \<notin> set (get_available_model_names e))
         \<or> py_not (data_dir (dataset (cfg_model cfg)))
         \<or> \<not> os_path_exists e (str_value (data_dir (dataset (cfg_model cfg))))
         \<or> PrepareTest False \<in> set (fst (main e cfg))
        \<longrightarrow> isl (snd (main e cfg)))
     \<and> (isl (snd (main e cfg)) \<longrightarrow>
          filter is_evaluation (fst (main e cfg)) = []
          \<and> filter is_inference (fst (main e cfg)) = []
          \<and> distinct (fst (main e cfg)))"
proof -
  have line60: "test_ds (cfg_model cfg) = None \<longrightarrow>
      main e cfg = ([LogInfo advisory_message], Inl (ValueError 60 test_ds_missing_message))"
    by (simp add: main_def)
  have line74: "test_ds (cfg_model cfg) \<noteq> None \<and> py_not (cfg_pretrained_model cfg) \<longrightarrow>
      main e cfg = (started, Inl (ValueError 74 pretrained_model_missing_message))"
    unfolding started tr by (auto simp add: main_defs)
  have line84: "test_ds (cfg_model cfg) \<noteq> None \<and> \<not> py_not (cfg_pretrained_model cfg)
       \<and> \<not> os_path_exists e pm \<and> pm \<notin> set (get_available_model_names e) \<longrightarrow>
      main e cfg
        = (started, Inl (ValueError 84 (unknown_model_message (list_available_models e))))"
    unfolding started tr pm by (auto simp add: main_defs)
  have line90: "test_ds (cfg_model cfg) \<noteq> None \<and> \<not> py_not (cfg_pretrained_model cfg)
       \<and> (os_path_exists e pm \<or> pm \<in> set (get_available_model_names e))
       \<and> py_not (data_dir (dataset (cfg_model cfg))) \<longrightarrow>
      main e cfg = (started @ [load], Inl (ValueError 90 data_dir_missing_message))"
    unfolding started tr pm load
    by (cases "os_path_exists e (str_value (cfg_pretrained_model cfg))")
       (auto simp add: main_defs)
  have line96: "test_ds (cfg_model cfg) \<noteq> None \<and> \<not> py_not (cfg_pretrained_model cfg)
       \<and> (os_path_exists e pm \<or> pm \<in> set (get_available_model_names e))
       \<and> \<not> py_not (data_dir (dataset (cfg_model cfg))) \<and> \<not> os_path_exists e dd \<longrightarrow>
      main e cfg = (started @ [load], Inl (ValueError 96 (dd @ '' is not found at'')))"
    unfolding started tr pm load dd
    by (cases "os_path_exists e (str_value (cfg_pretrained_model cfg))")
       (auto simp add: main_defs data_dir_not_found_message_def)
  have line108: "test_ds (cfg_model cfg) \<noteq> None \<and> \<not> py_not (cfg_pretrained_model cfg)
       \<and> (os_path_exists e pm \<or> pm \<in> set (get_available_model_names e))
       \<and> \<not> py_not (data_dir (dataset (cfg_model cfg))) \<and> os_path_exists e dd
       \<and> \<not> prepare_test e m tr \<longrightarrow>
      main e cfg
        = (started @ [load, UpdateDataDir dd, SetUseCache False, PrepareTest False],
           Inl (ValueError 108 ''Terminating evaluation''))"
    unfolding started tr pm load dd m
    by (cases "os_path_exists e (str_value (cfg_pretrained_model cfg))")
       (auto simp add: main_defs terminating_message_def)
  have refusal: "PrepareTest False \<in> set (fst (main e cfg)) \<longrightarrow>
      snd (main e cfg) = Inl (ValueError 108 ''Terminating evaluation'')
      \<and> last (fst (main e cfg)) = PrepareTest False"
    by (cases e cfg rule: main_cases)
       (auto simp add: terminating_message_def dest: log_results_is_log)
  have fatal: "test_ds (cfg_model cfg) = None
       \<or> py_not (cfg_pretrained_model cfg)
       \<or> (\<not> os_path_exists e (str_value (cfg_pretrained_model cfg))
           \<and> str_value (cfg_pretrained_model cfg) \<notin> set (get_available_model_names e))
       \<or> py_not (data_dir (dataset (cfg_model cfg)))
       \<or> \<not> os_path_exists e (str_value (data_dir (dataset (cfg_model cfg))))
       \<or> PrepareTest False \<in> set (fst (main e cfg))
      \<longrightarrow> isl (snd (main e cfg))"
    by (cases e cfg rule: main_cases) (auto dest: log_results_is_log)
  have no_recovery: "isl (snd (main e cfg)) \<longrightarrow>
      filter is_evaluation (fst (main e cfg)) = []
      \<and> filter is_inference (fst (main e cfg)) = []
      \<and> distinct (fst (main e cfg))"
    by (cases e cfg rule: main_cases) (auto dest: log_results_is_log)
  from line60 line74 line84 line90 line96 line108 refusal fatal no_recovery
  show ?thesis by (intro conjI)
qed


theorem detected_problems_are_fatal_witness:
  "main sample_env (without_test_ds sample_cfg)
     = ([LogInfo advisory_message], Inl (ValueError 60 test_ds_missing_message))
   \<and> main sample_env cfg_no_pretrained
     = ([LogInfo advisory_message,
         TrainerInit \<lparr>trainer_gpus = 1, trainer_precision = PyInt 16,
           trainer_amp_level = PyStr ''O1'', trainer_logger = False,
           trainer_checkpoint_callback = False\<rparr>,
         ExpManager \<lparr>trainer_gpus = 1, trainer_precision = PyInt 16,
           trainer_amp_level = PyStr ''O1'', trainer_logger = False,
           trainer_checkpoint_callback = False\<rparr> [] ''/exp''],
        Inl (ValueError 74 pretrained_model_missing_message))
   \<and> main sample_env cfg_unknown_model
     = ([LogInfo advisory_message,
         TrainerInit \<lparr>trainer_gpus = 1, trainer_precision = PyInt 16,
           trainer_amp_level = PyStr ''O1'', trainer_logger = False,
           trainer_checkpoint_callback = False\<rparr>,
         ExpManager \<lparr>trainer_gpus = 1, trainer_precision = PyInt 16,
           trainer_amp_level = PyStr ''O1'', trainer_logger = False,
           trainer_checkpoint_callback = False\<rparr> [] ''/exp''],
        Inl (ValueError 84 (unknown_model_message ''[NERModel]'')))
   \<and> main sample_env cfg_no_data_dir
     = ([LogInfo advisory_message,
         TrainerInit \<lparr>trainer_gpus = 1, trainer_precision = PyInt 16,
           trainer_amp_level = PyStr ''O1'', trainer_logger = False,
           trainer_checkpoint_callback = False\<rparr>,
         ExpManager \<lparr>trainer_gpus = 1, trainer_precision = PyInt 16,
           trainer_amp_level = PyStr ''O1'', trainer_logger = False,
           trainer_checkpoint_callback = False\<rparr> [] ''/exp'',
         RestoreFrom ''model.nemo''],
        Inl (ValueError 90 data_dir_missing_message))
   \<and> main sample_env cfg_missing_data_dir
     = ([LogInfo advisory_message,
         TrainerInit \<lparr>trainer_gpus = 1, trainer_precision = PyInt 16,
           trainer_amp_level = PyStr ''O1'', trainer_logger = False,
           trainer_checkpoint_callback = False\<rparr>,
         ExpManager \<lparr>trainer_gpus = 1, trainer_precision = PyInt 16,
           trainer_amp_level = PyStr ''O1'', trainer_logger = False,
           trainer_checkpoint_callback = False\<rparr> [] ''/exp'',
         RestoreFrom ''model.nemo''],
        Inl (ValueError 96 ''/missing is not found at''))
   \<and> main refusing_env sample_cfg
     = ([LogInfo advisory_message,
         TrainerInit \<lparr>trainer_gpus = 1, trainer_precision = PyInt 16,
           trainer_amp_level = PyStr ''O1'', trainer_logger = False,
           trainer_checkpoint_callback = False\<rparr>,
         ExpManager \<lparr>trainer_gpus = 1, trainer_precision = PyInt 16,
           trainer_amp_level = PyStr ''O1'', trainer_logger = False,
           trainer_checkpoint_callback = False\<rparr> [] ''/exp'',
         RestoreFrom ''model.nemo'', UpdateDataDir ''/data'', SetUseCache False,
         PrepareTest False],
        Inl (ValueError 108 ''Terminating evaluation''))
   \<and> PrepareTest False \<in> set (fst (main refusing_env sample_cfg))
   \<and> last (fst (main refusing_env sample_cfg)) = PrepareTest False
   \<and> isl (snd (main refusing_env sample_cfg))
   \<and> filter is_evaluation (fst (main refusing_env sample_cfg)) = []
   \<and> filter is_inference (fst (main refusing_env sample_cfg)) = []
   \<and> distinct (fst (main refusing_env sample_cfg))"
proof -
  note fatal = detected_problems_are_fatal [OF refl refl refl refl refl refl]
  have line60: "main sample_env (without_test_ds sample_cfg)
     = ([LogInfo advisory_message], Inl (ValueError 60 test_ds_missing_message))"
    using fatal [where cfg = "without_test_ds sample_cfg" and e = sample_env]
    by (simp add: sample_defs)
  have line74: "main sample_env cfg_no_pretrained
     = ([LogInfo advisory_message,
         TrainerInit \<lparr>trainer_gpus = 1, trainer_precision = PyInt 16,
           trainer_amp_level = PyStr ''O1'', trainer_logger = False,
           trainer_checkpoint_callback = False\<rparr>,
         ExpManager \<lparr>trainer_gpus = 1, trainer_precision = PyInt 16,
           trainer_amp_level = PyStr ''O1'', trainer_logger = False,
           trainer_checkpoint_callback = False\<rparr> [] ''/exp''],
        Inl (ValueError 74 pretrained_model_missing_message))"
    using fatal [where cfg = cfg_no_pretrained and e = sample_env]
    by (simp add: sample_defs)
  have line84: "main sample_env cfg_unknown_model
     = ([LogInfo advisory_message,
         TrainerInit \<lparr>trainer_gpus = 1, trainer_precision = PyInt 16,
           trainer_amp_level = PyStr ''O1'', trainer_logger = False,
           trainer_checkpoint_callback = False\<rparr>,
         ExpManager \<lparr>trainer_gpus = 1, trainer_precision = PyInt 16,
           trainer_amp_level = PyStr ''O1'', trainer_logger = False,
           trainer_checkpoint_callback = False\<rparr> [] ''/exp''],
        Inl (ValueError 84 (unknown_model_message ''[NERModel]'')))"
    using fatal [where cfg = cfg_unknown_model and e = sample_env]
    by (simp add: sample_defs)
  have line90: "main sample_env cfg_no_data_dir
     = ([LogInfo advisory_message,
         TrainerInit \<lparr>trainer_gpus = 1, trainer_precision = PyInt 16,
           trainer_amp_level = PyStr ''O1'', trainer_logger = False,
           trainer_checkpoint_callback = False\<rparr>,
         ExpManager \<lparr>trainer_gpus = 1, trainer_precision = PyInt 16,
           trainer_amp_level = PyStr ''O1'', trainer_logger = False,
           trainer_checkpoint_callback = False\<rparr> [] ''/exp'',
         RestoreFrom ''model.nemo''],
        Inl (ValueError 90 data_dir_missing_message))"
    using fatal [where cfg = cfg_no_data_dir and e = sample_env]
    by (simp add: sample_defs)
  have line96: "main sample_env cfg_missing_data_dir
     = ([LogInfo advisory_message,
         TrainerInit \<lparr>trainer_gpus = 1, trainer_precision = PyInt 16,
           trainer_amp_level = PyStr ''O1'', trainer_logger = False,
           trainer_checkpoint_callback = False\<rparr>,
         ExpManager \<lparr>trainer_gpus = 1, trainer_precision = PyInt 16,
           trainer_amp_level = PyStr ''O1'', trainer_logger = False,
           trainer_checkpoint_callback = False\<rparr> [] ''/exp'',
         RestoreFrom ''model.nemo''],
        Inl (ValueError 96 ''/missing is not found at''))"
    using fatal [where cfg = cfg_missing_data_dir and e = sample_env]
    by (simp add: sample_defs)
  have line108: "main refusing_env sample_cfg
     = ([LogInfo advisory_message,
         TrainerInit \<lparr>trainer_gpus = 1, trainer_precision = PyInt 16,
           trainer_amp_level = PyStr ''O1'', trainer_logger = False,
           trainer_checkpoint_callback = False\<rparr>,
         ExpManager \<lparr>trainer_gpus = 1, trainer_precision = PyInt 16,
           trainer_amp_level = PyStr ''O1'', trainer_logger = False,
           trainer_checkpoint_callback = False\<rparr> [] ''/exp'',
         RestoreFrom ''model.nemo'', UpdateDataDir ''/data'', SetUseCache False,
         PrepareTest False],
        Inl (ValueError 108 ''Terminating evaluation''))"
    using fatal [where cfg = sample_cfg and e = refusing_env]
    by (simp add: sample_defs)
  have rest: "PrepareTest False \<in> set (fst (main refusing_env sample_cfg))
     \<and> last (fst (main refusing_env sample_cfg)) = PrepareTest False
     \<and> isl (snd (main refusing_env sample_cfg))
     \<and> filter is_evaluation (fst (main refusing_env sample_cfg)) = []
     \<and> filter is_inference (fst (main refusing_env sample_cfg)) = []
     \<and> distinct (fst (main refusing_env sample_cfg))"
    unfolding line108 by simp
  from line60 line74 line84 line90 line96 line108 rest show ?thesis
    by (intro conjI) simp_all
qed

text \<open>
  C8, as stated: whenever \<^verbatim>\<open>cfg.pretrained_model\<close> is non-empty and is both an existing
  path and an available model name, the model is loaded with \<^verbatim>\<open>restore_from\<close>. It fails
  for a configuration that lacks \<^verbatim>\<open>model.test_ds\<close>: the script raises at line 60 and
  loads no model.
\<close>

theorem path_precedence_counterexample:
  "\<not> py_not (cfg_pretrained_model (without_test_ds sample_cfg))
   \<and> os_path_exists sample_env (str_value (cfg_pretrained_model (without_test_ds sample_cfg)))
   \<and> str_value (cfg_pretrained_model (without_test_ds sample_cfg))
       \<in> set (get_available_model_names sample_env)
   \<and> filter is_model_load (fst (main sample_env (without_test_ds sample_cfg))) = []"
  by (simp add: main_defs sample_defs)

text \<open>
  C8, amended: for every configuration in which \<^verbatim>\<open>cfg.model\<close> has a \<^verbatim>\<open>test_ds\<close>
  attribute and \<^verbatim>\<open>cfg.pretrained_model\<close> is non-empty and is both an existing path and
  an available model name, the only model-loading call is \<^verbatim>\<open>restore_from\<close> on that
  path; \<^verbatim>\<open>from_pretrained\<close> is not called.
\<close>

theorem path_takes_precedence:
  assumes "test_ds (cfg_model cfg) \<noteq> None"
    and "\<not> py_not (cfg_pretrained_model cfg)"
    and "os_path_exists e (str_value (cfg_pretrained_model cfg))"
    and "str_value (cfg_pretrained_model cfg) \<in> set (get_available_model_names e)"
  shows "filter is_model_load (fst (main e cfg))
         = [RestoreFrom (str_value (cfg_pretrained_model cfg))]"
  using assms by (auto simp add: main_defs split: option.splits sum.splits if_splits)

theorem path_takes_precedence_witness:
  "test_ds (cfg_model sample_cfg) \<noteq> None
   \<and> \<not> py_not (cfg_pretrained_model sample_cfg)
   \<and> os_path_exists sample_env (str_value (cfg_pretrained_model sample_cfg))
   \<and> str_value (cfg_pretrained_model sample_cfg) \<in> set (get_available_model_names sample_env)
   \<and> filter is_model_load (fst (main sample_env sample_cfg))
       = [RestoreFrom (str_value (cfg_pretrained_model sample_cfg))]"
  using path_takes_precedence [of sample_cfg sample_env]
  by (simp add: sample_defs)

text \<open>
  C9. Whenever \<^verbatim>\<open>trainer.test\<close> or \<^verbatim>\<open>evaluate_from_file\<close> is called, the model it is
  called on has \<^verbatim>\<open>use_cache\<close> false and \<^verbatim>\<open>data_dir\<close> equal to the configured
  \<^verbatim>\<open>model.dataset.data_dir\<close>, whatever the loaded checkpoint held; and the two writes
  (\<^verbatim>\<open>update_data_dir\<close> and the assignment of \<^verbatim>\<open>use_cache\<close>) come before the first
  evaluation call.
\<close>

theorem evaluated_model_uses_configured_data_dir:
  assumes "TrainerTest m \<in> set (fst (main e cfg))
           \<or> EvaluateFromFile m t l d c n \<in> set (fst (main e cfg))"
  shows "\<not> model_use_cache m
         \<and> model_data_dir m = data_dir (dataset (cfg_model cfg))
         \<and> UpdateDataDir (str_value (data_dir (dataset (cfg_model cfg))))
             \<in> set (takeWhile (\<lambda>ev. \<not> is_evaluation ev) (fst (main e cfg)))
         \<and> SetUseCache False
             \<in> set (takeWhile (\<lambda>ev. \<not> is_evaluation ev) (fst (main e cfg)))"
  using assms
  by (cases e cfg rule: main_cases) (auto dest: log_results_is_log)

theorem evaluated_model_uses_configured_data_dir_witness:
  "restore_from sample_env ''model.nemo''
     = \<lparr>weights = ''model.nemo'', model_data_dir = Some ''/train'', model_use_cache = True\<rparr>
   \<and> TrainerTest \<lparr>weights = ''model.nemo'', model_data_dir = Some ''/data'',
                   model_use_cache = False\<rparr>
       \<in> set (fst (main sample_env sample_cfg))
   \<and> data_dir (dataset (cfg_model sample_cfg)) = Some ''/data''
   \<and> UpdateDataDir ''/data''
       \<in> set (takeWhile (\<lambda>ev. \<not> is_evaluation ev) (fst (main sample_env sample_cfg)))
   \<and> SetUseCache False
       \<in> set (takeWhile (\<lambda>ev. \<not> is_evaluation ev) (fst (main sample_env sample_cfg)))"
proof -
  let ?m = "\<lparr>weights = ''model.nemo'', model_data_dir = Some ''/data'',
              model_use_cache = False\<rparr>"
  have tested: "TrainerTest ?m \<in> set (fst (main sample_env sample_cfg))"
    by (simp add: main_defs sample_defs)
  have dir: "data_dir (dataset (cfg_model sample_cfg)) = Some ''/data''"
    by (simp add: sample_cfg_def)
  have ckpt: "restore_from sample_env ''model.nemo''
     = \<lparr>weights = ''model.nemo'', model_data_dir = Some ''/train'', model_use_cache = True\<rparr>"
    by (simp add: sample_env_def)
  from evaluated_model_uses_configured_data_dir [of ?m sample_env sample_cfg] tested dir ckpt
  show ?thesis by simp
qed

text \<open>
  C10. The \<^verbatim>\<open>raise\<close> of line 102 is never executed: no run of \<^verbatim>\<open>main\<close> ends with the
  error of line 102, and every run that reaches the second check (it follows the
  assignment of \<^verbatim>\<open>use_cache\<close>) has a configuration in which \<^verbatim>\<open>cfg.model\<close> has the
  \<^verbatim>\<open>test_ds\<close> attribute.
\<close>

theorem second_test_ds_check_never_raises:
  "snd (main e cfg) \<noteq> Inl (ValueError 102 msg)
   \<and> (SetUseCache False \<in> set (fst (main e cfg)) \<longrightarrow> test_ds (cfg_model cfg) \<noteq> None)"
  by (cases e cfg rule: main_cases) (auto dest: log_results_is_log)

theorem second_test_ds_check_never_raises_witness:
  "SetUseCache False \<in> set (fst (main sample_env sample_cfg))
   \<and> test_ds (cfg_model sample_cfg) \<noteq> None
   \<and> snd (main sample_env sample_cfg) \<noteq> Inl (ValueError 102 test_ds_missing_message)"
proof -
  have reached: "SetUseCache False \<in> set (fst (main sample_env sample_cfg))"
    by (simp add: main_defs sample_defs)
  from second_test_ds_check_never_raises [of sample_env sample_cfg test_ds_missing_message]
    reached
  show ?thesis by simp
qed

end
